theory Spec2Isabelle
  imports Main "HOL-Library.AList" "HOL-Library.Word"
begin

section \<open>JavaScript values used by the client components\<close>

text \<open>
  A response body is whatever \<^verbatim>\<open>JSON.parse\<close> produced. An object keeps its
  properties in insertion order, as an association list read from the front.
  Numbers are integers here: the only thing the components ask of a number is
  whether it is zero.
\<close>

datatype json =
    JNull
  | JBool bool
  | JNum int
  | JStr string
  | JArr "json list"
  | JObj "(string \<times> json) list"

text \<open>The value raised by \<^verbatim>\<open>null.status\<close>.\<close>

datatype js_error = TypeError

text \<open>JavaScript truthiness; \<open>None\<close> stands for \<^verbatim>\<open>undefined\<close>.\<close>

fun truthy :: "json \<Rightarrow> bool" where
  "truthy JNull = False"
| "truthy (JBool b) = b"
| "truthy (JNum n) = (n \<noteq> 0)"
| "truthy (JStr s) = (s \<noteq> [])"
| "truthy (JArr xs) = True"
| "truthy (JObj fs) = True"

text \<open>\<^verbatim>\<open>a || b\<close> where \<^verbatim>\<open>a\<close> may be undefined.\<close>

definition js_or :: "json option \<Rightarrow> json \<Rightarrow> json" where
  "js_or a b = (case a of None \<Rightarrow> b | Some v \<Rightarrow> if truthy v then v else b)"

definition digit_char :: "nat \<Rightarrow> char" where
  "digit_char d = ''0123456789'' ! d"

text \<open>A number inside a template literal: its decimal digits.\<close>

fun string_of_nat :: "nat \<Rightarrow> string" where
  "string_of_nat n =
     (if n < 10 then [digit_char n]
      else string_of_nat (n div 10) @ [digit_char (n mod 10)])"

text \<open>
  The own enumerable properties of a value, which is what the spread
  \<^verbatim>\<open>{...v}\<close> copies: the properties of an object, the indexed elements of an array,
  the indexed characters of a string, nothing for null, a boolean or a number.
\<close>

fun own_props :: "json \<Rightarrow> (string \<times> json) list" where
  "own_props (JObj fs) = fs"
| "own_props (JArr xs) = zip (map string_of_nat [0..<length xs]) xs"
| "own_props (JStr s) = zip (map string_of_nat [0..<length s]) (map (\<lambda>c. JStr [c]) s)"
| "own_props v = []"

text \<open>
  \<^verbatim>\<open>v.k\<close> for a property name \<open>k\<close> that no prototype defines (the components read
  \<^verbatim>\<open>status\<close> and \<^verbatim>\<open>progress\<close>): reading a property of null raises, any other value
  answers with its own property or undefined.
\<close>

definition js_get :: "json \<Rightarrow> string \<Rightarrow> js_error + json option" where
  "js_get v k = (case v of JNull \<Rightarrow> Inl TypeError | _ \<Rightarrow> Inr (map_of (own_props v) k))"

text \<open>A value inside a template literal: \<^verbatim>\<open>`${token}`\<close> prints null as the word.\<close>

definition template :: "string option \<Rightarrow> string" where
  "template t = (case t of None \<Rightarrow> ''null'' | Some s \<Rightarrow> s)"

section \<open>HTTP requests and their outcomes\<close>

datatype Method = GET | POST

record request =
  http_method :: Method
  url :: string
  Authorization :: string
  body :: "json option"

text \<open>What axios hands back: the status line and the parsed body.\<close>

record response =
  status :: nat
  statusText :: string
  data :: json

text \<open>
  What the \<^verbatim>\<open>catch\<close> block of \<^verbatim>\<open>fetchProjectInfo\<close> can tell about the value it
  caught: an axios error, with the server's response when one arrived, or anything
  else (a rejected \<^verbatim>\<open>getToken\<close>, a TypeError).
\<close>

datatype err = AxiosError "response option" | NonAxiosError

datatype ('a, 'e) settled = Resolved 'a | Rejected 'e

section \<open>The ProjectInfo component\<close>

text \<open>
  The three \<^verbatim>\<open>useState\<close> cells. \<open>None\<close> is \<^verbatim>\<open>null\<close>.
\<close>

record ProjectInfo_state =
  project :: "json option"
  loading :: bool
  error :: "string option"

text \<open>The \<^verbatim>\<open>projectId\<close> prop, of type \<^verbatim>\<open>string | null | undefined\<close>.\<close>

datatype projectId_prop = Undefined | Null | Given string

fun falsy_projectId :: "projectId_prop \<Rightarrow> bool" where
  "falsy_projectId Undefined = True"
| "falsy_projectId Null = True"
| "falsy_projectId (Given s) = (s = [])"

fun projectId_text :: "projectId_prop \<Rightarrow> string" where
  "projectId_text Undefined = ''undefined''"
| "projectId_text Null = ''null''"
| "projectId_text (Given s) = s"

text \<open>
  The body of the \<^verbatim>\<open>try\<close> block (source lines 36 to 50). The API utility
  \<^verbatim>\<open>getApiEndpoint\<close>, the promise \<^verbatim>\<open>getToken()\<close> settles to and the behaviour of
  \<^verbatim>\<open>axios.get\<close> are parameters. The result is the caught value or the new state,
  with the requests that went out.
\<close>

definition fetchProjectInfo_try ::
  "(string \<Rightarrow> string) \<Rightarrow> (string option, err) settled \<Rightarrow> (request \<Rightarrow> (response, err) settled) \<Rightarrow>
   projectId_prop \<Rightarrow> ProjectInfo_state \<Rightarrow> (err + ProjectInfo_state) \<times> request list" where
  "fetchProjectInfo_try getApiEndpoint getToken axios_get projectId s =
     (case getToken of
        Rejected e \<Rightarrow> (Inl e, [])
      | Resolved token \<Rightarrow>
          let projectUrl = getApiEndpoint (''api/projects/'' @ projectId_text projectId);
              req = \<lparr>http_method = GET, url = projectUrl,
                     Authorization = ''Bearer '' @ template token, body = None\<rparr>
          in (case axios_get req of
                Rejected e \<Rightarrow> (Inl e, [req])
              | Resolved response \<Rightarrow>
                  (case js_get (data response) ''status'' of
                     Inl _ \<Rightarrow> (Inl NonAxiosError, [req])
                   | Inr st \<Rightarrow>
                       (case js_get (data response) ''progress'' of
                          Inl _ \<Rightarrow> (Inl NonAxiosError, [req])
                        | Inr pr \<Rightarrow>
                            let projectData =
                                  JObj (AList.update ''progress'' (js_or pr (JNum 0))
                                         (AList.update ''status'' (js_or st (JStr ''active''))
                                           (own_props (data response))))
                            in (Inr (s\<lparr>project := Some projectData, error := None\<rparr>), [req])))))"

text \<open>The \<^verbatim>\<open>catch\<close> block (source lines 51 to 63).\<close>

definition fetchProjectInfo_catch :: "err \<Rightarrow> ProjectInfo_state \<Rightarrow> ProjectInfo_state" where
  "fetchProjectInfo_catch e s =
     (let errorMessage =
            (case e of
               AxiosError (Some r) \<Rightarrow>
                 if status r = 404 then ''Project not found''
                 else ''Error: '' @ string_of_nat (status r) @ '' - '' @ statusText r
             | _ \<Rightarrow> ''Failed to load project information'')
      in s\<lparr>error := Some errorMessage, project := None\<rparr>)"

text \<open>
  \<^verbatim>\<open>fetchProjectInfo\<close> as a whole: the state once the promise has settled, and the
  requests it issued.
\<close>

definition fetchProjectInfo ::
  "(string \<Rightarrow> string) \<Rightarrow> (string option, err) settled \<Rightarrow> (request \<Rightarrow> (response, err) settled) \<Rightarrow>
   projectId_prop \<Rightarrow> ProjectInfo_state \<Rightarrow> ProjectInfo_state \<times> request list" where
  "fetchProjectInfo getApiEndpoint getToken axios_get projectId s =
     (if falsy_projectId projectId
      then (s\<lparr>error := Some ''Select a project or create a new one'', loading := False\<rparr>, [])
      else
        let s1 = s\<lparr>loading := True\<rparr> in
        (case fetchProjectInfo_try getApiEndpoint getToken axios_get projectId s1 of
           (Inr s2, reqs) \<Rightarrow> (s2\<lparr>loading := False\<rparr>, reqs)
         | (Inl e, reqs) \<Rightarrow> ((fetchProjectInfo_catch e s1)\<lparr>loading := False\<rparr>, reqs)))"

text \<open>
  A value placed between JSX tags: React prints a string or a number, prints nothing
  for null, undefined and a boolean, takes an array element by element, and throws
  "Objects are not valid as a React child" on a plain object.
\<close>

fun valid_child :: "json \<Rightarrow> bool" and valid_children :: "json list \<Rightarrow> bool" where
  "valid_child JNull = True"
| "valid_child (JBool b) = True"
| "valid_child (JNum n) = True"
| "valid_child (JStr s) = True"
| "valid_child (JArr xs) = valid_children xs"
| "valid_child (JObj fs) = False"
| "valid_children [] = True"
| "valid_children (x # xs) = (valid_child x \<and> valid_children xs)"

definition valid_child_or_undefined :: "json option \<Rightarrow> bool" where
  "valid_child_or_undefined v = (case v of None \<Rightarrow> True | Some x \<Rightarrow> valid_child x)"

text \<open>
  The children the card places (source lines 115 to 283): \<^verbatim>\<open>{project.name}\<close>,
  \<^verbatim>\<open>{project.description && ... {project.description} ...}\<close>, \<^verbatim>\<open>{project.progress}%\<close>,
  \<^verbatim>\<open>{project.status}\<close>, \<^verbatim>\<open>{project.teamMembers || 0}\<close> and
  \<^verbatim>\<open>{project.deadline && ... {project.deadline} ...}\<close>. A falsy left operand of
  \<^verbatim>\<open>&&\<close> is itself the child, and is a valid one.
\<close>

definition card_children_valid :: "json \<Rightarrow> bool" where
  "card_children_valid p =
     (let field = map_of (own_props p) in
      valid_child_or_undefined (field ''name'') \<and>
      valid_child_or_undefined (field ''description'') \<and>
      valid_child_or_undefined (field ''progress'') \<and>
      valid_child_or_undefined (field ''status'') \<and>
      valid_child (js_or (field ''teamMembers'') (JNum 0)) \<and>
      valid_child_or_undefined (field ''deadline''))"

text \<open>
  What the component returns (source lines 73 to 292): the loading placeholder, the
  red error paragraph with its text, or the card drawn from the stored project. When
  a child of the card is not valid React throws and nothing is drawn.
\<close>

datatype view = LoadingView | ErrorView string | ProjectView json | RenderThrows

definition truthy_text :: "string option \<Rightarrow> bool" where
  "truthy_text e = (case e of None \<Rightarrow> False | Some m \<Rightarrow> m \<noteq> [])"

text \<open>\<^verbatim>\<open>error || "..."\<close> on a cell of type \<^verbatim>\<open>string | null\<close>.\<close>

definition text_or :: "string option \<Rightarrow> string \<Rightarrow> string" where
  "text_or e d = (case e of None \<Rightarrow> d | Some m \<Rightarrow> if m \<noteq> [] then m else d)"

definition render :: "ProjectInfo_state \<Rightarrow> view" where
  "render s =
     (if loading s then LoadingView
      else
        (case (truthy_text (error s), project s) of
           (False, Some p) \<Rightarrow> if card_children_valid p then ProjectView p else RenderThrows
         | _ \<Rightarrow> ErrorView (text_or (error s) ''Project not found'')))"

section \<open>The SprintFormModal component\<close>

record SprintFormModal_state =
  name :: string
  goal :: string
  startDate :: string
  endDate :: string
  selectedProjectId :: string
  projects :: json
  isLoading :: bool
  error :: string
  projectsError :: string

text \<open>
  The shape \<^verbatim>\<open>handleSubmit\<close> casts the caught value to (source line 414):
  \<^verbatim>\<open>{ response?: { data?: { error?: string } } }\<close>. An absent member is \<open>None\<close>.
\<close>

datatype ErrorData = ErrorData "string option"
datatype ErrorResponse = ErrorResponse "ErrorData option"
datatype ErrorWithResponse = ErrorWithResponse "ErrorResponse option"

text \<open>\<^verbatim>\<open>errorResponse?.data?.error\<close>\<close>

fun response_data_error :: "ErrorWithResponse \<Rightarrow> string option" where
  "response_data_error (ErrorWithResponse None) = None"
| "response_data_error (ErrorWithResponse (Some (ErrorResponse None))) = None"
| "response_data_error (ErrorWithResponse (Some (ErrorResponse (Some (ErrorData e))))) = e"

text \<open>The callbacks received as props; \<^verbatim>\<open>onSprintCreated\<close> is optional.\<close>

datatype callback = onClose | onSprintCreated


text \<open>\<^verbatim>\<open>startDate || null\<close> on a string cell.\<close>

definition string_or_null :: "string \<Rightarrow> json" where
  "string_or_null d = (if d \<noteq> [] then JStr d else JNull)"

text \<open>The JSON body of the POST (source lines 396 to 402).\<close>

definition sprint_body :: "SprintFormModal_state \<Rightarrow> json" where
  "sprint_body s =
     JObj [(''name'', JStr (name s)),
           (''goal'', JStr (goal s)),
           (''startDate'', string_or_null (startDate s)),
           (''endDate'', string_or_null (endDate s)),
           (''projectId'', JStr (selectedProjectId s))]"

text \<open>
  \<^verbatim>\<open>handleSubmit\<close> (source lines 376 to 421): the state once the handler has settled,
  the requests it issued and the callbacks it invoked, in order. The flag tells
  whether the \<^verbatim>\<open>onSprintCreated\<close> prop was given. The callbacks are taken to return
  normally.
\<close>

definition handleSubmit ::
  "(string \<Rightarrow> string) \<Rightarrow> (string option, ErrorWithResponse) settled \<Rightarrow>
   (request \<Rightarrow> (response, ErrorWithResponse) settled) \<Rightarrow> bool \<Rightarrow>
   SprintFormModal_state \<Rightarrow> SprintFormModal_state \<times> request list \<times> callback list" where
  "handleSubmit getApiEndpoint getToken axios_post has_onSprintCreated s =
     (if selectedProjectId s = [] then (s\<lparr>error := ''Please select a project''\<rparr>, [], [])
      else if name s = [] then (s\<lparr>error := ''Sprint name is required''\<rparr>, [], [])
      else
        let s1 = s\<lparr>isLoading := True, error := []\<rparr>;
            failed = (\<lambda>e. s1\<lparr>error := text_or (response_data_error e) ''Failed to create sprint'',
                               isLoading := False\<rparr>)
        in (case getToken of
              Rejected e \<Rightarrow> (failed e, [], [])
            | Resolved token \<Rightarrow>
                let req = \<lparr>http_method = POST, url = getApiEndpoint ''/api/sprints/create'',
                           Authorization = ''Bearer '' @ template token,
                           body = Some (sprint_body s)\<rparr>
                in (case axios_post req of
                      Rejected e \<Rightarrow> (failed e, [req], [])
                    | Resolved _ \<Rightarrow>
                        (s1\<lparr>isLoading := False\<rparr>, [req],
                         onClose # (if has_onSprintCreated then [onSprintCreated] else [])))))"

text \<open>The modal is on screen exactly while the parent keeps \<^verbatim>\<open>isOpen\<close> true, and the
  only way the component asks the parent to close it is the \<^verbatim>\<open>onClose\<close> callback.\<close>

definition asks_to_close :: "callback list \<Rightarrow> bool" where
  "asks_to_close cs = (onClose \<in> set cs)"

section \<open>Sample environments for the components\<close>

definition example_endpoint :: "string \<Rightarrow> string" where
  "example_endpoint path = ''https://pixbay.example/'' @ path"

definition initial_state :: ProjectInfo_state where
  "initial_state = \<lparr>project = None, loading = True, error = None\<rparr>"

definition example_project_request :: request where
  "example_project_request =
     \<lparr>http_method = GET, url = ''https://pixbay.example/api/projects/p1'',
      Authorization = ''Bearer tok'', body = None\<rparr>"

definition example_project_response :: response where
  "example_project_response =
     \<lparr>status = 200, statusText = ''OK'',
      data = JObj [(''name'', JStr ''Apollo''), (''progress'', JNum 0), (''teamMembers'', JNum 3)]\<rparr>"

definition serves_project :: "request \<Rightarrow> (response, err) settled" where
  "serves_project req = Resolved example_project_response"

definition null_response :: response where
  "null_response = \<lparr>status = 200, statusText = ''OK'', data = JNull\<rparr>"

definition serves_null :: "request \<Rightarrow> (response, err) settled" where
  "serves_null req = Resolved null_response"

definition nested_name_response :: response where
  "nested_name_response =
     \<lparr>status = 200, statusText = ''OK'',
      data = JObj [(''name'', JObj [(''en'', JStr ''Apollo'')]), (''status'', JStr ''active''),
                   (''progress'', JNum 40)]\<rparr>"

definition serves_nested_name :: "request \<Rightarrow> (response, err) settled" where
  "serves_nested_name req = Resolved nested_name_response"

definition not_found_response :: response where
  "not_found_response = \<lparr>status = 404, statusText = ''Not Found'', data = JNull\<rparr>"

definition not_found :: "request \<Rightarrow> (response, err) settled" where
  "not_found req = Rejected (AxiosError (Some not_found_response))"

definition server_error_response :: response where
  "server_error_response = \<lparr>status = 500, statusText = ''Internal Server Error'', data = JNull\<rparr>"

definition server_error :: "request \<Rightarrow> (response, err) settled" where
  "server_error req = Rejected (AxiosError (Some server_error_response))"

definition network_error :: "request \<Rightarrow> (response, err) settled" where
  "network_error req = Rejected (AxiosError None)"

definition example_form :: SprintFormModal_state where
  "example_form =
     \<lparr>name = ''Sprint 1'', goal = ''Ship'', startDate = [], endDate = ''2025-01-31'',
      selectedProjectId = ''p1'', projects = JArr [], isLoading = False, error = [],
      projectsError = []\<rparr>"

definition example_sprint_request :: request where
  "example_sprint_request =
     \<lparr>http_method = POST, url = ''https://pixbay.example//api/sprints/create'',
      Authorization = ''Bearer tok'',
      body = Some (JObj [(''name'', JStr ''Sprint 1''), (''goal'', JStr ''Ship''),
                         (''startDate'', JNull), (''endDate'', JStr ''2025-01-31''),
                         (''projectId'', JStr ''p1'')])\<rparr>"

definition empty_error :: ErrorWithResponse where
  "empty_error = ErrorWithResponse (Some (ErrorResponse (Some (ErrorData (Some [])))))"

definition rejects_with_empty_error :: "request \<Rightarrow> (response, ErrorWithResponse) settled" where
  "rejects_with_empty_error req = Rejected empty_error"

definition name_taken_error :: ErrorWithResponse where
  "name_taken_error =
     ErrorWithResponse (Some (ErrorResponse (Some (ErrorData (Some ''Sprint name taken'')))))"

definition rejects_with_error :: "request \<Rightarrow> (response, ErrorWithResponse) settled" where
  "rejects_with_error req = Rejected name_taken_error"

definition accepts :: "request \<Rightarrow> (response, ErrorWithResponse) settled" where
  "accepts req = Resolved \<lparr>status = 201, statusText = ''Created'', data = JObj []\<rparr>"



section \<open>The relational schema\<close>

text \<open>
  The Prisma schema, one record per model with its scalar columns in the order of the
  source; relation fields are not columns. \<^verbatim>\<open>String?\<close> is an option, \<^verbatim>\<open>Int\<close> is
  the 32-bit integer of the PostgreSQL provider, read signed, \<^verbatim>\<open>DateTime\<close> is a
  timestamp.
\<close>

type_synonym DateTime = int

datatype UserRole = ADMIN | MANAGER | MEMBER | GUEST

datatype ProjectStatus = PLANNING | ACTIVE | COMPLETED | ARCHIVED

datatype TaskType = TASK | BUG | STORY | EPIC

datatype TaskStatus = TODO | IN_PROGRESS | DONE | ARCHIVED

datatype Priority = HIGH | MEDIUM | LOW

datatype SprintStatus = PLANNING | ACTIVE | COMPLETED | CANCELLED

datatype MilestoneStatus = COMPLETED | IN_PROGRESS | UPCOMING | AT_RISK | BLOCKED

datatype ViewType = TABLE | GALLERY | LIST | CALENDAR | KANBAN | TIMELINE

datatype ActivityType =
  CREATED | UPDATED | DELETED | COMMENTED | ASSIGNED | STATUS_CHANGED | COMPLETED

record User =
  id :: string
  email :: "string option"
  name :: "string option"
  role :: UserRole
  createdAt :: DateTime
  updatedAt :: DateTime

record Room =
  id :: string
  name :: string
  ownerId :: string
  createdAt :: DateTime
  whiteboardData :: "json option"

record ChatMessage =
  id :: string
  roomName :: string
  userId :: string
  message :: string
  createdAt :: DateTime

record Workspace =
  id :: string
  name :: string
  createdAt :: DateTime
  updatedAt :: DateTime

record WorkspaceMember =
  id :: string
  workspaceId :: string
  userId :: string
  role :: UserRole
  joinedAt :: DateTime

record Project =
  id :: string
  name :: string
  description :: "string option"
  key :: string
  status :: ProjectStatus
  progress :: "32 word"
  createdAt :: DateTime
  updatedAt :: DateTime
  workspaceId :: string

record Task =
  id :: string
  title :: string
  description :: "string option"
  type :: TaskType
  status :: TaskStatus
  priority :: Priority
  storyPoints :: "32 word option"
  dueDate :: "DateTime option"
  createdAt :: DateTime
  updatedAt :: DateTime
  projectId :: string
  sprintId :: "string option"
  assigneeId :: "string option"
  creatorId :: string
  parentId :: "string option"

record TaskTag =
  id :: string
  name :: string
  color :: "string option"
  taskId :: string

record Sprint =
  id :: string
  name :: string
  goal :: "string option"
  status :: SprintStatus
  startDate :: "DateTime option"
  endDate :: "DateTime option"
  progress :: "32 word"
  createdAt :: DateTime
  updatedAt :: DateTime
  projectId :: string
  ownerId :: string

record Milestone =
  id :: string
  title :: string
  description :: "string option"
  status :: MilestoneStatus
  progress :: "32 word"
  startDate :: "DateTime option"
  endDate :: "DateTime option"
  createdAt :: DateTime
  updatedAt :: DateTime
  projectId :: string
  ownerId :: string

record MilestoneDependency =
  id :: string
  milestoneId :: string
  dependsOnId :: string

record Activity =
  id :: string
  type :: ActivityType
  content :: string
  createdAt :: DateTime
  userId :: string
  taskId :: "string option"

record Notification =
  id :: string
  title :: string
  content :: string
  isRead :: bool
  createdAt :: DateTime
  userId :: string

text \<open>A state of the database: the rows of every table.\<close>

record database =
  users :: "User list"
  rooms :: "Room list"
  chatMessages :: "ChatMessage list"
  workspaces :: "Workspace list"
  workspaceMembers :: "WorkspaceMember list"
  projects :: "Project list"
  tasks :: "Task list"
  taskTags :: "TaskTag list"
  sprints :: "Sprint list"
  milestones :: "Milestone list"
  milestoneDependencies :: "MilestoneDependency list"
  activities :: "Activity list"
  notifications :: "Notification list"

subsection \<open>The constraints the schema declares\<close>

text \<open>\<^verbatim>\<open>@id\<close>, \<^verbatim>\<open>@unique\<close> and \<^verbatim>\<open>@@unique([...])\<close>: no two rows agree on the key.\<close>

definition unique_on :: "('r \<Rightarrow> 'k) \<Rightarrow> 'r list \<Rightarrow> bool" where
  "unique_on k rows = distinct (map k rows)"

text \<open>\<^verbatim>\<open>@unique\<close> on a nullable column: only the rows that have a value compete.\<close>

definition unique_on_nullable :: "('r \<Rightarrow> 'k option) \<Rightarrow> 'r list \<Rightarrow> bool" where
  "unique_on_nullable k rows = distinct (List.map_filter k rows)"

text \<open>\<^verbatim>\<open>@relation(fields: [f], references: [k])\<close>: every row points at an existing row.\<close>

definition refers :: "('r \<Rightarrow> 'k) \<Rightarrow> 'r list \<Rightarrow> ('t \<Rightarrow> 'k) \<Rightarrow> 't list \<Rightarrow> bool" where
  "refers f rows k targets = list_all (\<lambda>r. f r \<in> set (map k targets)) rows"

definition refers_nullable ::
  "('r \<Rightarrow> 'k option) \<Rightarrow> 'r list \<Rightarrow> ('t \<Rightarrow> 'k) \<Rightarrow> 't list \<Rightarrow> bool" where
  "refers_nullable f rows k targets =
     list_all (\<lambda>r. case f r of None \<Rightarrow> True | Some v \<Rightarrow> v \<in> set (map k targets)) rows"

definition primary_keys :: "database \<Rightarrow> bool" where
  "primary_keys db \<longleftrightarrow>
     unique_on User.id (users db) \<and>
     unique_on Room.id (rooms db) \<and>
     unique_on ChatMessage.id (chatMessages db) \<and>
     unique_on Workspace.id (workspaces db) \<and>
     unique_on WorkspaceMember.id (workspaceMembers db) \<and>
     unique_on Project.id (database.projects db) \<and>
     unique_on Task.id (tasks db) \<and>
     unique_on TaskTag.id (taskTags db) \<and>
     unique_on Sprint.id (sprints db) \<and>
     unique_on Milestone.id (milestones db) \<and>
     unique_on MilestoneDependency.id (milestoneDependencies db) \<and>
     unique_on Activity.id (activities db) \<and>
     unique_on Notification.id (notifications db)"

definition unique_constraints :: "database \<Rightarrow> bool" where
  "unique_constraints db \<longleftrightarrow>
     unique_on_nullable User.email (users db) \<and>
     unique_on Room.name (rooms db) \<and>
     unique_on Workspace.name (workspaces db) \<and>
     unique_on (\<lambda>m. (WorkspaceMember.workspaceId m, WorkspaceMember.userId m)) (workspaceMembers db) \<and>
     unique_on (\<lambda>t. (TaskTag.taskId t, TaskTag.name t)) (taskTags db) \<and>
     unique_on (\<lambda>d. (milestoneId d, dependsOnId d)) (milestoneDependencies db)"

definition foreign_keys :: "database \<Rightarrow> bool" where
  "foreign_keys db \<longleftrightarrow>
     refers Room.ownerId (rooms db) User.id (users db) \<and>
     refers roomName (chatMessages db) Room.name (rooms db) \<and>
     refers ChatMessage.userId (chatMessages db) User.id (users db) \<and>
     refers WorkspaceMember.workspaceId (workspaceMembers db) Workspace.id (workspaces db) \<and>
     refers WorkspaceMember.userId (workspaceMembers db) User.id (users db) \<and>
     refers Project.workspaceId (database.projects db) Workspace.id (workspaces db) \<and>
     refers Task.projectId (tasks db) Project.id (database.projects db) \<and>
     refers_nullable sprintId (tasks db) Sprint.id (sprints db) \<and>
     refers_nullable assigneeId (tasks db) User.id (users db) \<and>
     refers creatorId (tasks db) User.id (users db) \<and>
     refers TaskTag.taskId (taskTags db) Task.id (tasks db) \<and>
     refers Sprint.projectId (sprints db) Project.id (database.projects db) \<and>
     refers Sprint.ownerId (sprints db) User.id (users db) \<and>
     refers Milestone.projectId (milestones db) Project.id (database.projects db) \<and>
     refers Milestone.ownerId (milestones db) User.id (users db) \<and>
     refers milestoneId (milestoneDependencies db) Milestone.id (milestones db) \<and>
     refers dependsOnId (milestoneDependencies db) Milestone.id (milestones db) \<and>
     refers Activity.userId (activities db) User.id (users db) \<and>
     refers_nullable Activity.taskId (activities db) Task.id (tasks db) \<and>
     refers Notification.userId (notifications db) User.id (users db)"

text \<open>The states the schema admits.\<close>

definition schema_valid :: "database \<Rightarrow> bool" where
  "schema_valid db \<longleftrightarrow> primary_keys db \<and> unique_constraints db \<and> foreign_keys db"

subsection \<open>Deleting rows under the declared referential actions\<close>

text \<open>
  \<^verbatim>\<open>DELETE FROM "Task" WHERE c\<close>. TaskTag.task and Activity.task are declared
  \<^verbatim>\<open>onDelete: Cascade\<close>: the rows pointing at a deleted task go with it.
\<close>

definition delete_Tasks :: "(Task \<Rightarrow> bool) \<Rightarrow> database \<Rightarrow> database" where
  "delete_Tasks c db =
     (let deleted = map Task.id (filter c (tasks db))
      in db\<lparr>tasks := filter (\<lambda>t. \<not> c t) (tasks db),
            taskTags := filter (\<lambda>g. TaskTag.taskId g \<notin> set deleted) (taskTags db),
            activities :=
              filter (\<lambda>a. case Activity.taskId a of None \<Rightarrow> True | Some t \<Rightarrow> t \<notin> set deleted)
                (activities db)\<rparr>)"

text \<open>
  \<^verbatim>\<open>DELETE FROM "Sprint" WHERE c\<close>. Task.sprint is optional and declares no
  \<^verbatim>\<open>onDelete\<close>, for which Prisma sets the column to null.
\<close>

definition set_null_sprintId :: "string list \<Rightarrow> Task \<Rightarrow> Task" where
  "set_null_sprintId deleted t =
     (case sprintId t of
        None \<Rightarrow> t
      | Some s \<Rightarrow> if s \<in> set deleted then t\<lparr>sprintId := None\<rparr> else t)"

definition delete_Sprints :: "(Sprint \<Rightarrow> bool) \<Rightarrow> database \<Rightarrow> database" where
  "delete_Sprints c db =
     (let deleted = map Sprint.id (filter c (sprints db))
      in db\<lparr>sprints := filter (\<lambda>s. \<not> c s) (sprints db),
            tasks := map (set_null_sprintId deleted) (tasks db)\<rparr>)"

text \<open>
  \<^verbatim>\<open>DELETE FROM "Milestone" WHERE c\<close>. Both relations of MilestoneDependency are
  declared \<^verbatim>\<open>onDelete: Cascade\<close>.
\<close>

definition delete_Milestones :: "(Milestone \<Rightarrow> bool) \<Rightarrow> database \<Rightarrow> database" where
  "delete_Milestones c db =
     (let deleted = map Milestone.id (filter c (milestones db))
      in db\<lparr>milestones := filter (\<lambda>m. \<not> c m) (milestones db),
            milestoneDependencies :=
              filter (\<lambda>d. milestoneId d \<notin> set deleted \<and> dependsOnId d \<notin> set deleted)
                (milestoneDependencies db)\<rparr>)"

text \<open>
  \<^verbatim>\<open>DELETE FROM "Project" WHERE c\<close>. Task.project, Sprint.project and
  Milestone.project are declared \<^verbatim>\<open>onDelete: Cascade\<close>.
\<close>

definition delete_Projects :: "(Project \<Rightarrow> bool) \<Rightarrow> database \<Rightarrow> database" where
  "delete_Projects c db =
     (let deleted = map Project.id (filter c (database.projects db));
          db1 = db\<lparr>database.projects := filter (\<lambda>p. \<not> c p) (database.projects db)\<rparr>
      in delete_Milestones (\<lambda>m. Milestone.projectId m \<in> set deleted)
           (delete_Sprints (\<lambda>s. Sprint.projectId s \<in> set deleted)
             (delete_Tasks (\<lambda>t. Task.projectId t \<in> set deleted) db1)))"

text \<open>
  \<^verbatim>\<open>DELETE FROM "Workspace" WHERE c\<close>. WorkspaceMember.workspace and
  Project.workspace are declared \<^verbatim>\<open>onDelete: Cascade\<close>.
\<close>

definition delete_Workspaces :: "(Workspace \<Rightarrow> bool) \<Rightarrow> database \<Rightarrow> database" where
  "delete_Workspaces c db =
     (let deleted = map Workspace.id (filter c (workspaces db));
          db1 = db\<lparr>workspaces := filter (\<lambda>w. \<not> c w) (workspaces db),
                   workspaceMembers :=
                     filter (\<lambda>m. WorkspaceMember.workspaceId m \<notin> set deleted) (workspaceMembers db)\<rparr>
      in delete_Projects (\<lambda>p. Project.workspaceId p \<in> set deleted) db1)"

definition delete_Project :: "string \<Rightarrow> database \<Rightarrow> database" where
  "delete_Project pid db = delete_Projects (\<lambda>p. Project.id p = pid) db"

definition delete_Workspace :: "string \<Rightarrow> database \<Rightarrow> database" where
  "delete_Workspace wid db = delete_Workspaces (\<lambda>w. Workspace.id w = wid) db"

subsection \<open>Milestone dependencies as a directed graph\<close>

definition dependency_edges :: "database \<Rightarrow> (string \<times> string) list" where
  "dependency_edges db = map (\<lambda>d. (milestoneId d, dependsOnId d)) (milestoneDependencies db)"

text \<open>A walk along the edges: consecutive milestones are joined by a dependency.\<close>

fun walk :: "(string \<times> string) list \<Rightarrow> string list \<Rightarrow> bool" where
  "walk es [] = True"
| "walk es [m] = True"
| "walk es (m # n # ms) = ((m, n) \<in> set es \<and> walk es (n # ms))"

text \<open>A directed cycle: a walk with at least one edge that ends where it starts.\<close>

definition is_cycle :: "database \<Rightarrow> string list \<Rightarrow> bool" where
  "is_cycle db ms \<longleftrightarrow> 2 \<le> length ms \<and> hd ms = last ms \<and> walk (dependency_edges db) ms"

section \<open>A sample database\<close>

definition example_users :: "User list" where
  "example_users =
     [\<lparr>User.id = ''u1'', User.email = Some ''ann@pixbay.example'', User.name = Some ''Ann'',
       User.role = ADMIN, User.createdAt = 0, User.updatedAt = 0\<rparr>,
      \<lparr>User.id = ''u2'', User.email = None, User.name = None,
       User.role = MEMBER, User.createdAt = 0, User.updatedAt = 0\<rparr>]"

definition example_workspaces :: "Workspace list" where
  "example_workspaces =
     [\<lparr>Workspace.id = ''w1'', Workspace.name = ''Acme'', Workspace.createdAt = 0,
       Workspace.updatedAt = 0\<rparr>,
      \<lparr>Workspace.id = ''w2'', Workspace.name = ''Beta'', Workspace.createdAt = 0,
       Workspace.updatedAt = 0\<rparr>]"

definition example_members :: "WorkspaceMember list" where
  "example_members =
     [\<lparr>WorkspaceMember.id = ''wm1'', WorkspaceMember.workspaceId = ''w1'',
       WorkspaceMember.userId = ''u1'', WorkspaceMember.role = ADMIN, joinedAt = 0\<rparr>,
      \<lparr>WorkspaceMember.id = ''wm2'', WorkspaceMember.workspaceId = ''w1'',
       WorkspaceMember.userId = ''u2'', WorkspaceMember.role = MEMBER, joinedAt = 0\<rparr>,
      \<lparr>WorkspaceMember.id = ''wm3'', WorkspaceMember.workspaceId = ''w2'',
       WorkspaceMember.userId = ''u1'', WorkspaceMember.role = MEMBER, joinedAt = 0\<rparr>]"

definition example_projects :: "Project list" where
  "example_projects =
     [\<lparr>Project.id = ''p1'', Project.name = ''Apollo'', Project.description = None,
       key = ''APO'', Project.status = ProjectStatus.ACTIVE, Project.progress = 150,
       Project.createdAt = 0, Project.updatedAt = 0, Project.workspaceId = ''w1''\<rparr>,
      \<lparr>Project.id = ''p2'', Project.name = ''Borealis'', Project.description = None,
       key = ''BOR'', Project.status = ProjectStatus.PLANNING, Project.progress = 40,
       Project.createdAt = 0, Project.updatedAt = 0, Project.workspaceId = ''w2''\<rparr>]"

definition example_task :: "string \<Rightarrow> string \<Rightarrow> Task" where
  "example_task i p =
     \<lparr>Task.id = i, Task.title = ''Draw the ring'', Task.description = None,
      Task.type = TASK, Task.status = TODO, priority = MEDIUM, storyPoints = None,
      dueDate = None, Task.createdAt = 0, Task.updatedAt = 0, Task.projectId = p,
      sprintId = Some ''s1'', assigneeId = None, creatorId = ''u1'', parentId = None\<rparr>"

definition example_tags :: "TaskTag list" where
  "example_tags =
     [\<lparr>TaskTag.id = ''g1'', TaskTag.name = ''ui'', color = None, TaskTag.taskId = ''t1''\<rparr>,
      \<lparr>TaskTag.id = ''g2'', TaskTag.name = ''api'', color = None, TaskTag.taskId = ''t1''\<rparr>,
      \<lparr>TaskTag.id = ''g3'', TaskTag.name = ''ui'', color = None, TaskTag.taskId = ''t2''\<rparr>]"

definition example_sprints :: "Sprint list" where
  "example_sprints =
     [\<lparr>Sprint.id = ''s1'', Sprint.name = ''Sprint 1'', Sprint.goal = None,
       Sprint.status = SprintStatus.ACTIVE, Sprint.startDate = None, Sprint.endDate = None,
       Sprint.progress = 0, Sprint.createdAt = 0, Sprint.updatedAt = 0,
       Sprint.projectId = ''p1'', Sprint.ownerId = ''u1''\<rparr>]"

definition example_milestone :: "string \<Rightarrow> string \<Rightarrow> Milestone" where
  "example_milestone i p =
     \<lparr>Milestone.id = i, Milestone.title = ''Beta'', Milestone.description = None,
      Milestone.status = UPCOMING, Milestone.progress = 0, Milestone.startDate = None,
      Milestone.endDate = None, Milestone.createdAt = 0, Milestone.updatedAt = 0,
      Milestone.projectId = p, Milestone.ownerId = ''u1''\<rparr>"

definition example_dependencies :: "MilestoneDependency list" where
  "example_dependencies =
     [\<lparr>MilestoneDependency.id = ''d1'', milestoneId = ''m1'', dependsOnId = ''m2''\<rparr>,
      \<lparr>MilestoneDependency.id = ''d2'', milestoneId = ''m2'', dependsOnId = ''m1''\<rparr>,
      \<lparr>MilestoneDependency.id = ''d3'', milestoneId = ''m3'', dependsOnId = ''m1''\<rparr>]"

definition example_activities :: "Activity list" where
  "example_activities =
     [\<lparr>Activity.id = ''a1'', Activity.type = CREATED, Activity.content = ''created t1'',
       Activity.createdAt = 0, Activity.userId = ''u1'', Activity.taskId = Some ''t1''\<rparr>,
      \<lparr>Activity.id = ''a2'', Activity.type = COMMENTED, Activity.content = ''hello'',
       Activity.createdAt = 0, Activity.userId = ''u2'', Activity.taskId = None\<rparr>]"

definition example_db :: database where
  "example_db =
     \<lparr>users = example_users,
      rooms = [\<lparr>Room.id = ''r1'', Room.name = ''general'', Room.ownerId = ''u1'',
                Room.createdAt = 0, whiteboardData = None\<rparr>],
      chatMessages = [\<lparr>ChatMessage.id = ''c1'', roomName = ''general'', ChatMessage.userId = ''u2'',
                       message = ''hi'', ChatMessage.createdAt = 0\<rparr>],
      workspaces = example_workspaces,
      workspaceMembers = example_members,
      database.projects = example_projects,
      tasks = [example_task ''t1'' ''p1'', example_task ''t2'' ''p2''],
      taskTags = example_tags,
      sprints = example_sprints,
      milestones = [example_milestone ''m1'' ''p1'', example_milestone ''m2'' ''p1'',
                    example_milestone ''m3'' ''p2''],
      milestoneDependencies = example_dependencies,
      activities = example_activities,
      notifications = [\<lparr>Notification.id = ''n1'', Notification.title = ''Welcome'',
                        Notification.content = ''hello'', isRead = False,
                        Notification.createdAt = 0, Notification.userId = ''u1''\<rparr>]\<rparr>"

section \<open>ProjectInfo: what a fetch leaves on screen\<close>

text \<open>
  C1, as the spec has it: after every successful response the project shown is the
  body with the two defaults applied. It is not when the body is \<^verbatim>\<open>null\<close>: the read
  of \<^verbatim>\<open>response.data.status\<close> raises, the \<^verbatim>\<open>catch\<close> block clears the project and the
  generic failure text is shown. Nor is a card shown when a displayed property of the
  body is an object: React throws on it.
\<close>

theorem fetchProjectInfo_null_body_counterexample:
  "serves_null example_project_request = Resolved null_response
   \<and> data null_response = JNull
   \<and> fst (fetchProjectInfo example_endpoint (Resolved (Some ''tok'')) serves_null (Given ''p1'')
            initial_state)
       = \<lparr>project = None, loading = False, error = Some ''Failed to load project information''\<rparr>
   \<and> render (fst (fetchProjectInfo example_endpoint (Resolved (Some ''tok'')) serves_null
                   (Given ''p1'') initial_state))
       = ErrorView ''Failed to load project information''
   \<and> render (fst (fetchProjectInfo example_endpoint (Resolved (Some ''tok'')) serves_nested_name
                   (Given ''p1'') initial_state))
       = RenderThrows"
  by (simp add: fetchProjectInfo_def fetchProjectInfo_try_def fetchProjectInfo_catch_def
      js_get_def js_or_def Let_def serves_null_def null_response_def serves_nested_name_def
      nested_name_response_def initial_state_def render_def truthy_text_def text_or_def
      card_children_valid_def valid_child_or_undefined_def)

text \<open>
  The same for any environment: a successful response with the body \<^verbatim>\<open>null\<close> ends in
  the generic failure.
\<close>

lemma fetchProjectInfo_null_body:
  assumes "pid = Given p" and "p \<noteq> []"
    and "getToken = Resolved token"
    and "axios_get \<lparr>http_method = GET, url = getApiEndpoint (''api/projects/'' @ p),
               Authorization = ''Bearer '' @ template token, body = None\<rparr> = Resolved r"
    and "data r = JNull"
  shows "fst (fetchProjectInfo getApiEndpoint getToken axios_get pid s)
           = \<lparr>project = None, loading = False,
              error = Some ''Failed to load project information''\<rparr>"
  using assms
  by (simp add: fetchProjectInfo_def fetchProjectInfo_try_def fetchProjectInfo_catch_def
      js_get_def Let_def)

text \<open>
  C1, amended. When the GET succeeds with a JSON object as body, the stored project
  has the body's properties, except that \<^verbatim>\<open>status\<close> is "active" when the body has
  none or a falsy one, and \<^verbatim>\<open>progress\<close> is 0 when the body has none or a falsy one;
  every other property is as the body has it. The error is cleared, loading is over,
  and the card is drawn from that project whenever each property the card displays
  is a valid React child.
\<close>

theorem fetchProjectInfo_defaults:
  assumes "pid = Given p" and "p \<noteq> []"
    and "getToken = Resolved token"
    and "axios_get \<lparr>http_method = GET, url = getApiEndpoint (''api/projects/'' @ p),
               Authorization = ''Bearer '' @ template token, body = None\<rparr> = Resolved r"
    and "data r = JObj fs"
  shows "\<exists>fs'. fst (fetchProjectInfo getApiEndpoint getToken axios_get pid s)
            = \<lparr>project = Some (JObj fs'), loading = False, error = None\<rparr>
        \<and> (card_children_valid (JObj fs') \<longrightarrow>
             render (fst (fetchProjectInfo getApiEndpoint getToken axios_get pid s))
               = ProjectView (JObj fs'))
        \<and> map_of fs' ''status'' =
            Some (case map_of fs ''status'' of None \<Rightarrow> JStr ''active''
                  | Some v \<Rightarrow> if truthy v then v else JStr ''active'')
        \<and> map_of fs' ''progress'' =
            Some (case map_of fs ''progress'' of None \<Rightarrow> JNum 0
                  | Some v \<Rightarrow> if truthy v then v else JNum 0)
        \<and> (\<forall>k. k \<noteq> ''status'' \<and> k \<noteq> ''progress'' \<longrightarrow> map_of fs' k = map_of fs k)"
proof -
  let ?fs' = "AList.update ''progress'' (js_or (map_of fs ''progress'') (JNum 0))
               (AList.update ''status'' (js_or (map_of fs ''status'') (JStr ''active'')) fs)"
  let ?s' = "\<lparr>project = Some (JObj ?fs'), loading = False, error = None\<rparr>"
  have run: "fst (fetchProjectInfo getApiEndpoint getToken axios_get pid s) = ?s'"
    using assms
    by (simp add: fetchProjectInfo_def fetchProjectInfo_try_def js_get_def Let_def)
  have st: "map_of ?fs' ''status'' = Some (js_or (map_of fs ''status'') (JStr ''active''))"
    by (simp add: update_conv')
  have pr: "map_of ?fs' ''progress'' = Some (js_or (map_of fs ''progress'') (JNum 0))"
    by (simp add: update_conv')
  have other: "\<forall>k. k \<noteq> ''status'' \<and> k \<noteq> ''progress'' \<longrightarrow> map_of ?fs' k = map_of fs k"
    by (simp add: update_conv')
  have card: "card_children_valid (JObj ?fs') \<longrightarrow> render ?s' = ProjectView (JObj ?fs')"
    by (simp add: render_def truthy_text_def)
  show ?thesis
    apply (rule exI [of _ ?fs'])
    using st pr other card unfolding run by (simp add: js_or_def)
qed

theorem fetchProjectInfo_defaults_witness:
  "serves_project example_project_request = Resolved example_project_response
   \<and> (\<exists>fs'. fst (fetchProjectInfo example_endpoint (Resolved (Some ''tok'')) serves_project
                   (Given ''p1'') initial_state)
              = \<lparr>project = Some (JObj fs'), loading = False, error = None\<rparr>
          \<and> card_children_valid (JObj fs')
          \<and> render (fst (fetchProjectInfo example_endpoint (Resolved (Some ''tok''))
                           serves_project (Given ''p1'') initial_state))
              = ProjectView (JObj fs')
          \<and> map_of fs' ''status'' = Some (JStr ''active'')
          \<and> map_of fs' ''progress'' = Some (JNum 0)
          \<and> map_of fs' ''name'' = Some (JStr ''Apollo''))"
proof -
  let ?body = "[(''name'', JStr ''Apollo''), (''progress'', JNum 0), (''teamMembers'', JNum 3)]"
  let ?run = "fetchProjectInfo example_endpoint (Resolved (Some ''tok'')) serves_project
                (Given ''p1'') initial_state"
  have served: "serves_project \<lparr>http_method = GET, url = example_endpoint (''api/projects/'' @ ''p1''),
       Authorization = ''Bearer '' @ template (Some ''tok''), body = None\<rparr>
       = Resolved example_project_response"
    by (simp add: serves_project_def)
  have body: "data example_project_response = JObj ?body"
    by (simp add: example_project_response_def)
  have nonempty: "''p1'' \<noteq> []"
    by simp
  note at_example = fetchProjectInfo_defaults [of "Given ''p1''" "''p1''" "Resolved (Some ''tok'')"
      "Some ''tok''" serves_project example_endpoint example_project_response ?body initial_state]
  from at_example [OF refl nonempty refl served body]
  obtain fs' where state: "fst ?run = \<lparr>project = Some (JObj fs'), loading = False, error = None\<rparr>"
    and card: "card_children_valid (JObj fs') \<longrightarrow> render (fst ?run) = ProjectView (JObj fs')"
    and st: "map_of fs' ''status'' =
               Some (case map_of ?body ''status'' of None \<Rightarrow> JStr ''active''
                     | Some v \<Rightarrow> if truthy v then v else JStr ''active'')"
    and pr: "map_of fs' ''progress'' =
               Some (case map_of ?body ''progress'' of None \<Rightarrow> JNum 0
                     | Some v \<Rightarrow> if truthy v then v else JNum 0)"
    and other: "\<forall>k. k \<noteq> ''status'' \<and> k \<noteq> ''progress'' \<longrightarrow> map_of fs' k = map_of ?body k"
    by (elim exE conjE) (rule that; assumption)
  have st': "map_of fs' ''status'' = Some (JStr ''active'')"
    using st by simp
  have pr': "map_of fs' ''progress'' = Some (JNum 0)"
    using pr by simp
  have "map_of fs' ''name'' = map_of ?body ''name''"
    using other by simp
  then have nm: "map_of fs' ''name'' = Some (JStr ''Apollo'')"
    by simp
  have "map_of fs' ''description'' = map_of ?body ''description''"
    using other by simp
  then have ds: "map_of fs' ''description'' = None"
    by simp
  have "map_of fs' ''teamMembers'' = map_of ?body ''teamMembers''"
    using other by simp
  then have tm: "map_of fs' ''teamMembers'' = Some (JNum 3)"
    by simp
  have "map_of fs' ''deadline'' = map_of ?body ''deadline''"
    using other by simp
  then have dl: "map_of fs' ''deadline'' = None"
    by simp
  have valid: "card_children_valid (JObj fs')"
    by (simp add: card_children_valid_def valid_child_or_undefined_def js_or_def st' pr' nm ds tm dl)
  with card have drawn: "render (fst ?run) = ProjectView (JObj fs')"
    by simp
  have "serves_project example_project_request = Resolved example_project_response"
    by (simp add: serves_project_def)
  with state valid drawn st' pr' nm show ?thesis
    by blast
qed

text \<open>
  C2. When the GET is rejected by an axios error that carries a response of status
  404, the error is exactly "Project not found", the stored project is null, and the
  component shows that text.
\<close>

theorem fetchProjectInfo_404:
  assumes "pid = Given p" and "p \<noteq> []"
    and "getToken = Resolved token"
    and "axios_get \<lparr>http_method = GET, url = getApiEndpoint (''api/projects/'' @ p),
               Authorization = ''Bearer '' @ template token, body = None\<rparr>
           = Rejected (AxiosError (Some r))"
    and "response.status r = 404"
  shows "ProjectInfo_state.error (fst (fetchProjectInfo getApiEndpoint getToken axios_get pid s))
           = Some ''Project not found''
       \<and> project (fst (fetchProjectInfo getApiEndpoint getToken axios_get pid s)) = None
       \<and> render (fst (fetchProjectInfo getApiEndpoint getToken axios_get pid s))
           = ErrorView ''Project not found''"
  using assms
  by (simp add: fetchProjectInfo_def fetchProjectInfo_try_def fetchProjectInfo_catch_def
      render_def truthy_text_def text_or_def Let_def)

theorem fetchProjectInfo_404_witness:
  "not_found example_project_request = Rejected (AxiosError (Some not_found_response))
   \<and> response.status not_found_response = 404
   \<and> ProjectInfo_state.error
        (fst (fetchProjectInfo example_endpoint (Resolved (Some ''tok'')) not_found (Given ''p1'') initial_state))
       = Some ''Project not found''
   \<and> project
        (fst (fetchProjectInfo example_endpoint (Resolved (Some ''tok'')) not_found (Given ''p1'') initial_state))
       = None
   \<and> render
        (fst (fetchProjectInfo example_endpoint (Resolved (Some ''tok'')) not_found (Given ''p1'') initial_state))
       = ErrorView ''Project not found''"
  using fetchProjectInfo_404 [of "Given ''p1''" "''p1''" "Resolved (Some ''tok'')" "Some ''tok''"
      not_found example_endpoint not_found_response initial_state]
  by (simp add: not_found_def not_found_response_def)

text \<open>
  C3, as the spec has it: a network error, too, shows a message of the form
  "Error: <status> - <statusText>". It does not: an axios error without a response
  shows the generic text.
\<close>

theorem fetchProjectInfo_network_error_counterexample:
  "network_error example_project_request = Rejected (AxiosError None)
   \<and> render (fst (fetchProjectInfo example_endpoint (Resolved (Some ''tok'')) network_error
                   (Given ''p1'') initial_state))
       = ErrorView ''Failed to load project information''
   \<and> take 7 ''Failed to load project information'' \<noteq> ''Error: ''"
  by (simp add: fetchProjectInfo_def fetchProjectInfo_try_def fetchProjectInfo_catch_def
      render_def truthy_text_def text_or_def Let_def network_error_def initial_state_def)

text \<open>
  C3, amended. When the GET is rejected with a response whose status is not 404, the
  component shows "Error: <status> - <statusText>"; when it is rejected without a
  response (a network error), the component shows "Failed to load project
  information".
\<close>

theorem fetchProjectInfo_error_message:
  assumes "pid = Given p" and "p \<noteq> []"
    and "getToken = Resolved token"
  shows "(axios_get \<lparr>http_method = GET, url = getApiEndpoint (''api/projects/'' @ p),
               Authorization = ''Bearer '' @ template token, body = None\<rparr>
           = Rejected (AxiosError (Some r)) \<and> response.status r \<noteq> 404 \<longrightarrow>
          render (fst (fetchProjectInfo getApiEndpoint getToken axios_get pid s))
            = ErrorView (''Error: '' @ string_of_nat (response.status r) @ '' - '' @ statusText r))
       \<and> (axios_get \<lparr>http_method = GET, url = getApiEndpoint (''api/projects/'' @ p),
               Authorization = ''Bearer '' @ template token, body = None\<rparr>
           = Rejected (AxiosError None) \<longrightarrow>
          render (fst (fetchProjectInfo getApiEndpoint getToken axios_get pid s))
            = ErrorView ''Failed to load project information'')"
  using assms
  by (simp add: fetchProjectInfo_def fetchProjectInfo_try_def fetchProjectInfo_catch_def
      render_def truthy_text_def text_or_def Let_def del: string_of_nat.simps)

theorem fetchProjectInfo_error_message_witness:
  "server_error example_project_request = Rejected (AxiosError (Some server_error_response))
   \<and> response.status server_error_response \<noteq> 404
   \<and> render (fst (fetchProjectInfo example_endpoint (Resolved (Some ''tok'')) server_error
                   (Given ''p1'') initial_state))
       = ErrorView ''Error: 500 - Internal Server Error''
   \<and> render (fst (fetchProjectInfo example_endpoint (Resolved (Some ''tok'')) network_error
                   (Given ''p1'') initial_state))
       = ErrorView ''Failed to load project information''"
proof -
  have digits: "string_of_nat 500 = ''500''"
    by (simp add: digit_char_def)
  show ?thesis
    using fetchProjectInfo_error_message [of "Given ''p1''" "''p1''" "Resolved (Some ''tok'')"
        "Some ''tok''" server_error example_endpoint server_error_response initial_state]
      fetchProjectInfo_error_message [of "Given ''p1''" "''p1''" "Resolved (Some ''tok'')"
        "Some ''tok''" network_error example_endpoint server_error_response initial_state]
    by (simp add: server_error_def network_error_def server_error_response_def digits
        del: string_of_nat.simps)
qed

text \<open>
  C9. Called with a projectId that is undefined, null or the empty string,
  \<^verbatim>\<open>fetchProjectInfo\<close> issues no request, sets the error to exactly "Select a project
  or create a new one" and sets loading to false.
\<close>

theorem fetchProjectInfo_without_projectId:
  assumes "pid = Undefined \<or> pid = Null \<or> pid = Given []"
  shows "snd (fetchProjectInfo getApiEndpoint getToken axios_get pid s) = []
       \<and> ProjectInfo_state.error (fst (fetchProjectInfo getApiEndpoint getToken axios_get pid s))
           = Some ''Select a project or create a new one''
       \<and> loading (fst (fetchProjectInfo getApiEndpoint getToken axios_get pid s)) = False"
  using assms by (auto simp add: fetchProjectInfo_def)

theorem fetchProjectInfo_without_projectId_witness:
  "snd (fetchProjectInfo example_endpoint (Resolved (Some ''tok'')) serves_project Null initial_state) = []
   \<and> ProjectInfo_state.error
        (fst (fetchProjectInfo example_endpoint (Resolved (Some ''tok'')) serves_project Null initial_state))
       = Some ''Select a project or create a new one''
   \<and> loading
        (fst (fetchProjectInfo example_endpoint (Resolved (Some ''tok'')) serves_project Null initial_state))
       = False"
  using fetchProjectInfo_without_projectId [of Null example_endpoint "Resolved (Some ''tok'')"
      serves_project initial_state]
  by simp

section \<open>SprintFormModal: submitting the form\<close>

text \<open>
  C4, as the spec has it: the server-supplied \<^verbatim>\<open>response.data.error\<close> is shown
  whenever it is present. It is not when it is the empty string: the fallback text is
  shown instead.
\<close>

theorem handleSubmit_empty_error_counterexample:
  "response_data_error empty_error = Some []
   \<and> SprintFormModal_state.error
       (fst (handleSubmit example_endpoint (Resolved (Some ''tok'')) rejects_with_empty_error True
               example_form))
     = ''Failed to create sprint''"
  by (simp add: handleSubmit_def example_form_def rejects_with_empty_error_def empty_error_def
      text_or_def Let_def)

text \<open>
  C4, amended. When the POST of a filled-in form is rejected, the error shown is the
  server-supplied \<^verbatim>\<open>response.data.error\<close> when that is present and not empty, and
  exactly "Failed to create sprint" otherwise; the POST is the only request issued
  (no retry), and \<^verbatim>\<open>onClose\<close> is not called (the modal stays open).
\<close>

theorem handleSubmit_failure:
  assumes "selectedProjectId s \<noteq> []" and "SprintFormModal_state.name s \<noteq> []"
    and "getToken = Resolved token"
    and "req = \<lparr>http_method = POST, url = getApiEndpoint ''/api/sprints/create'',
                 Authorization = ''Bearer '' @ template token, body = Some (sprint_body s)\<rparr>"
    and "axios_post req = Rejected e"
  shows "(\<forall>m. response_data_error e = Some m \<and> m \<noteq> [] \<longrightarrow>
            SprintFormModal_state.error (fst (handleSubmit getApiEndpoint getToken axios_post b s)) = m)
       \<and> (response_data_error e = None \<or> response_data_error e = Some [] \<longrightarrow>
            SprintFormModal_state.error (fst (handleSubmit getApiEndpoint getToken axios_post b s))
              = ''Failed to create sprint'')
       \<and> fst (snd (handleSubmit getApiEndpoint getToken axios_post b s)) = [req]
       \<and> \<not> asks_to_close (snd (snd (handleSubmit getApiEndpoint getToken axios_post b s)))"
  using assms
  by (auto simp add: handleSubmit_def text_or_def Let_def asks_to_close_def)

theorem handleSubmit_failure_witness:
  "rejects_with_error example_sprint_request = Rejected name_taken_error
   \<and> response_data_error name_taken_error = Some ''Sprint name taken''
   \<and> SprintFormModal_state.error
        (fst (handleSubmit example_endpoint (Resolved (Some ''tok'')) rejects_with_error True example_form))
       = ''Sprint name taken''
   \<and> fst (snd (handleSubmit example_endpoint (Resolved (Some ''tok'')) rejects_with_error True example_form))
       = [example_sprint_request]
   \<and> \<not> asks_to_close
         (snd (snd (handleSubmit example_endpoint (Resolved (Some ''tok'')) rejects_with_error True
                      example_form)))"
  using handleSubmit_failure [of example_form "Resolved (Some ''tok'')" "Some ''tok''"
      example_sprint_request example_endpoint rejects_with_error name_taken_error True]
  by (simp add: example_form_def example_sprint_request_def example_endpoint_def rejects_with_error_def
      name_taken_error_def sprint_body_def string_or_null_def template_def)

text \<open>
  C10. Submitted without a selected project, the form issues no request and changes
  nothing but the error, which becomes "Please select a project"; with a project but
  without a name, likewise with "Sprint name is required". With both, the request that
  goes out once the token is there is a POST whose body carries null for an empty
  startDate and null for an empty endDate.
\<close>

theorem handleSubmit_validation:
  "(selectedProjectId s = [] \<longrightarrow>
      handleSubmit getApiEndpoint getToken axios_post b s
        = (s\<lparr>SprintFormModal_state.error := ''Please select a project''\<rparr>, [], []))
   \<and> (selectedProjectId s \<noteq> [] \<and> SprintFormModal_state.name s = [] \<longrightarrow>
      handleSubmit getApiEndpoint getToken axios_post b s
        = (s\<lparr>SprintFormModal_state.error := ''Sprint name is required''\<rparr>, [], []))
   \<and> (selectedProjectId s \<noteq> [] \<and> SprintFormModal_state.name s \<noteq> [] \<longrightarrow>
      (\<forall>token. getToken = Resolved token \<longrightarrow>
         (\<exists>req fs. fst (snd (handleSubmit getApiEndpoint getToken axios_post b s)) = [req]
            \<and> http_method req = POST \<and> body req = Some (JObj fs)
            \<and> (SprintFormModal_state.startDate s = [] \<longrightarrow> map_of fs ''startDate'' = Some JNull)
            \<and> (SprintFormModal_state.endDate s = [] \<longrightarrow> map_of fs ''endDate'' = Some JNull))))"
  by (auto simp add: handleSubmit_def Let_def sprint_body_def string_or_null_def split: settled.splits)

theorem handleSubmit_validation_witness:
  "handleSubmit example_endpoint (Resolved (Some ''tok'')) accepts True
      (example_form\<lparr>selectedProjectId := []\<rparr>)
     = (example_form\<lparr>selectedProjectId := [], SprintFormModal_state.error := ''Please select a project''\<rparr>,
        [], [])
   \<and> handleSubmit example_endpoint (Resolved (Some ''tok'')) accepts True
      (example_form\<lparr>SprintFormModal_state.name := []\<rparr>)
     = (example_form\<lparr>SprintFormModal_state.name := [],
                      SprintFormModal_state.error := ''Sprint name is required''\<rparr>, [], [])
   \<and> (\<exists>req. fst (snd (handleSubmit example_endpoint (Resolved (Some ''tok'')) accepts True example_form))
                  = [req]
            \<and> http_method req = POST
            \<and> (\<exists>fs. body req = Some (JObj fs) \<and> map_of fs ''startDate'' = Some JNull))"
  using handleSubmit_validation [of "example_form\<lparr>selectedProjectId := []\<rparr>" example_endpoint
      "Resolved (Some ''tok'')" accepts True]
    handleSubmit_validation [of "example_form\<lparr>SprintFormModal_state.name := []\<rparr>" example_endpoint
      "Resolved (Some ''tok'')" accepts True]
    handleSubmit_validation [of example_form example_endpoint "Resolved (Some ''tok'')" accepts True]
  by (simp add: example_form_def)

section \<open>The requests the components issue\<close>






section \<open>The schema: referential actions keep a state valid\<close>

lemma refers_filter_rows:
  "refers f rows k ts \<Longrightarrow> refers f (filter P rows) k ts"
  by (auto simp add: refers_def list_all_iff)

lemma refers_map_rows:
  "refers f rows k ts \<Longrightarrow> (\<And>r. f (g r) = f r) \<Longrightarrow> refers f (map g rows) k ts"
  by (simp add: refers_def list_all_iff)

lemma refers_map_targets:
  "refers f rows k ts \<Longrightarrow> (\<And>t. k (g t) = k t) \<Longrightarrow> refers f rows k (map g ts)"
  by (simp add: refers_def comp_def)

lemma refers_cascade:
  "refers f rows k ts \<Longrightarrow>
   refers f (filter (\<lambda>r. f r \<notin> set (map k (filter c ts))) rows) k (filter (\<lambda>t. \<not> c t) ts)"
  by (fastforce simp add: refers_def list_all_iff)

lemma refers_cascade_left:
  "refers f rows k ts \<Longrightarrow>
   refers f (filter (\<lambda>r. f r \<notin> set (map k (filter c ts)) \<and> Q r) rows) k (filter (\<lambda>t. \<not> c t) ts)"
  by (fastforce simp add: refers_def list_all_iff)

lemma refers_cascade_right:
  "refers f rows k ts \<Longrightarrow>
   refers f (filter (\<lambda>r. Q r \<and> f r \<notin> set (map k (filter c ts))) rows) k (filter (\<lambda>t. \<not> c t) ts)"
  by (fastforce simp add: refers_def list_all_iff)

lemma refers_nullable_filter_rows:
  "refers_nullable f rows k ts \<Longrightarrow> refers_nullable f (filter P rows) k ts"
  by (auto simp add: refers_nullable_def list_all_iff)

lemma refers_nullable_map_rows:
  "refers_nullable f rows k ts \<Longrightarrow> (\<And>r. f (g r) = f r) \<Longrightarrow> refers_nullable f (map g rows) k ts"
  by (simp add: refers_nullable_def list_all_iff)

lemma refers_nullable_map_targets:
  assumes "refers_nullable f rows k ts" and "\<And>t. k (g t) = k t"
  shows "refers_nullable f rows k (map g ts)"
proof -
  have same_keys: "map k (map g ts) = map k ts"
    by (simp add: assms(2))
  show ?thesis
    using assms(1) unfolding refers_nullable_def same_keys .
qed

lemma refers_nullable_cascade:
  "refers_nullable f rows k ts \<Longrightarrow>
   refers_nullable f
     (filter (\<lambda>r. case f r of None \<Rightarrow> True | Some v \<Rightarrow> v \<notin> set (map k (filter c ts))) rows)
     k (filter (\<lambda>t. \<not> c t) ts)"
  by (fastforce simp add: refers_nullable_def list_all_iff split: option.splits)

lemma set_null_sprintId_fields [simp]:
  "Task.id (set_null_sprintId D t) = Task.id t"
  "Task.projectId (set_null_sprintId D t) = Task.projectId t"
  "assigneeId (set_null_sprintId D t) = assigneeId t"
  "creatorId (set_null_sprintId D t) = creatorId t"
  by (simp_all add: set_null_sprintId_def split: option.splits)

lemma refers_nullable_set_null:
  "refers_nullable sprintId rows Sprint.id ss \<Longrightarrow>
   refers_nullable sprintId (map (set_null_sprintId (map Sprint.id (filter c ss))) rows)
     Sprint.id (filter (\<lambda>s. \<not> c s) ss)"
  by (fastforce simp add: refers_nullable_def list_all_iff set_null_sprintId_def split: option.splits)

lemma unique_on_filter: "unique_on k rows \<Longrightarrow> unique_on k (filter P rows)"
  by (simp add: unique_on_def distinct_map_filter)

lemma unique_on_map_rows: "unique_on k rows \<Longrightarrow> (\<And>r. k (g r) = k r) \<Longrightarrow> unique_on k (map g rows)"
  by (simp add: unique_on_def comp_def)

lemma delete_Projects_tables:
  "users (delete_Projects c db) = users db"
  "rooms (delete_Projects c db) = rooms db"
  "chatMessages (delete_Projects c db) = chatMessages db"
  "workspaces (delete_Projects c db) = workspaces db"
  "workspaceMembers (delete_Projects c db) = workspaceMembers db"
  "database.projects (delete_Projects c db) = filter (\<lambda>p. \<not> c p) (database.projects db)"
  "tasks (delete_Projects c db) =
     map (set_null_sprintId (map Sprint.id
            (filter (\<lambda>s. Sprint.projectId s \<in> set (map Project.id (filter c (database.projects db))))
               (sprints db))))
       (filter (\<lambda>t. Task.projectId t \<notin> set (map Project.id (filter c (database.projects db))))
          (tasks db))"
  "taskTags (delete_Projects c db) =
     filter (\<lambda>g. TaskTag.taskId g \<notin> set (map Task.id
               (filter (\<lambda>t. Task.projectId t \<in> set (map Project.id (filter c (database.projects db))))
                  (tasks db))))
       (taskTags db)"
  "sprints (delete_Projects c db) =
     filter (\<lambda>s. Sprint.projectId s \<notin> set (map Project.id (filter c (database.projects db))))
       (sprints db)"
  "milestones (delete_Projects c db) =
     filter (\<lambda>m. Milestone.projectId m \<notin> set (map Project.id (filter c (database.projects db))))
       (milestones db)"
  "milestoneDependencies (delete_Projects c db) =
     filter (\<lambda>d. milestoneId d \<notin> set (map Milestone.id
                    (filter (\<lambda>m. Milestone.projectId m \<in> set (map Project.id (filter c (database.projects db))))
                       (milestones db)))
               \<and> dependsOnId d \<notin> set (map Milestone.id
                    (filter (\<lambda>m. Milestone.projectId m \<in> set (map Project.id (filter c (database.projects db))))
                       (milestones db))))
       (milestoneDependencies db)"
  "activities (delete_Projects c db) =
     filter (\<lambda>a. case Activity.taskId a of None \<Rightarrow> True
                  | Some t \<Rightarrow> t \<notin> set (map Task.id
                      (filter (\<lambda>t. Task.projectId t \<in> set (map Project.id (filter c (database.projects db))))
                         (tasks db))))
       (activities db)"
  "notifications (delete_Projects c db) = notifications db"
  by (simp_all add: delete_Projects_def delete_Milestones_def delete_Sprints_def delete_Tasks_def Let_def
      cong: option.case_cong)

lemma delete_Workspaces_tables:
  "workspaces (delete_Workspaces c db) = filter (\<lambda>w. \<not> c w) (workspaces db)"
  "workspaceMembers (delete_Workspaces c db) =
     filter (\<lambda>m. WorkspaceMember.workspaceId m \<notin> set (map Workspace.id (filter c (workspaces db))))
       (workspaceMembers db)"
  "database.projects (delete_Workspaces c db) =
     filter (\<lambda>p. Project.workspaceId p \<notin> set (map Workspace.id (filter c (workspaces db))))
       (database.projects db)"
  "users (delete_Workspaces c db) = users db"
  by (simp_all add: delete_Workspaces_def delete_Projects_tables Let_def)

text \<open>Below the workspace level, deleting workspaces is deleting their projects.\<close>

lemma delete_Workspaces_below:
  "users (delete_Workspaces c db) =
     users (delete_Projects (\<lambda>p. Project.workspaceId p \<in> set (map Workspace.id (filter c (workspaces db)))) db)"
  "rooms (delete_Workspaces c db) =
     rooms (delete_Projects (\<lambda>p. Project.workspaceId p \<in> set (map Workspace.id (filter c (workspaces db)))) db)"
  "chatMessages (delete_Workspaces c db) =
     chatMessages (delete_Projects (\<lambda>p. Project.workspaceId p \<in> set (map Workspace.id (filter c (workspaces db)))) db)"
  "database.projects (delete_Workspaces c db) =
     database.projects (delete_Projects (\<lambda>p. Project.workspaceId p \<in> set (map Workspace.id (filter c (workspaces db)))) db)"
  "tasks (delete_Workspaces c db) =
     tasks (delete_Projects (\<lambda>p. Project.workspaceId p \<in> set (map Workspace.id (filter c (workspaces db)))) db)"
  "taskTags (delete_Workspaces c db) =
     taskTags (delete_Projects (\<lambda>p. Project.workspaceId p \<in> set (map Workspace.id (filter c (workspaces db)))) db)"
  "sprints (delete_Workspaces c db) =
     sprints (delete_Projects (\<lambda>p. Project.workspaceId p \<in> set (map Workspace.id (filter c (workspaces db)))) db)"
  "milestones (delete_Workspaces c db) =
     milestones (delete_Projects (\<lambda>p. Project.workspaceId p \<in> set (map Workspace.id (filter c (workspaces db)))) db)"
  "milestoneDependencies (delete_Workspaces c db) =
     milestoneDependencies (delete_Projects (\<lambda>p. Project.workspaceId p \<in> set (map Workspace.id (filter c (workspaces db)))) db)"
  "activities (delete_Workspaces c db) =
     activities (delete_Projects (\<lambda>p. Project.workspaceId p \<in> set (map Workspace.id (filter c (workspaces db)))) db)"
  "notifications (delete_Workspaces c db) =
     notifications (delete_Projects (\<lambda>p. Project.workspaceId p \<in> set (map Workspace.id (filter c (workspaces db)))) db)"
  by (simp_all add: delete_Workspaces_def delete_Projects_tables Let_def cong: option.case_cong)

lemmas referential_rules =
  refers_nullable_set_null refers_cascade refers_cascade_left refers_cascade_right
  refers_nullable_cascade refers_map_rows refers_map_targets refers_nullable_map_rows
  refers_nullable_map_targets refers_filter_rows refers_nullable_filter_rows

lemma delete_Projects_foreign_keys:
  "foreign_keys db \<Longrightarrow> foreign_keys (delete_Projects c db)"
  unfolding foreign_keys_def delete_Projects_tables
  apply (elim conjE)
  apply (intro conjI referential_rules)
                      apply (assumption | simp)+
  done

lemma delete_Projects_primary_keys:
  "primary_keys db \<Longrightarrow> primary_keys (delete_Projects c db)"
  unfolding primary_keys_def delete_Projects_tables
  apply (elim conjE)
  apply (intro conjI unique_on_map_rows unique_on_filter)
                      apply (assumption | simp)+
  done

lemma delete_Projects_unique_constraints:
  "unique_constraints db \<Longrightarrow> unique_constraints (delete_Projects c db)"
  unfolding unique_constraints_def delete_Projects_tables
  apply (elim conjE)
  apply (intro conjI unique_on_map_rows unique_on_filter)
                      apply (assumption | simp)+
  done

lemma delete_Projects_schema_valid:
  "schema_valid db \<Longrightarrow> schema_valid (delete_Projects c db)"
  by (simp add: schema_valid_def delete_Projects_foreign_keys delete_Projects_primary_keys
      delete_Projects_unique_constraints)

lemma delete_Workspaces_foreign_keys:
  assumes "foreign_keys db"
  shows "foreign_keys (delete_Workspaces c db)"
proof -
  let ?db' = "delete_Workspaces c db"
  have below: "foreign_keys (delete_Projects
          (\<lambda>p. Project.workspaceId p \<in> set (map Workspace.id (filter c (workspaces db)))) db)"
    using assms by (rule delete_Projects_foreign_keys)
  have members: "refers WorkspaceMember.workspaceId (workspaceMembers ?db') Workspace.id (workspaces ?db')"
    unfolding delete_Workspaces_tables
    using assms by (intro refers_cascade) (simp add: foreign_keys_def)
  have member_users: "refers WorkspaceMember.userId (workspaceMembers ?db') User.id (users ?db')"
    unfolding delete_Workspaces_tables
    using assms by (intro refers_filter_rows) (simp add: foreign_keys_def)
  have projects: "refers Project.workspaceId (database.projects ?db') Workspace.id (workspaces ?db')"
    unfolding delete_Workspaces_tables
    using assms by (intro refers_cascade) (simp add: foreign_keys_def)
  show ?thesis
    unfolding foreign_keys_def
    using members member_users projects below [unfolded foreign_keys_def]
    by (simp only: delete_Workspaces_below simp_thms)
qed

lemma delete_Workspaces_primary_keys:
  assumes "primary_keys db"
  shows "primary_keys (delete_Workspaces c db)"
proof -
  let ?db' = "delete_Workspaces c db"
  have below: "primary_keys (delete_Projects
          (\<lambda>p. Project.workspaceId p \<in> set (map Workspace.id (filter c (workspaces db)))) db)"
    using assms by (rule delete_Projects_primary_keys)
  have ws: "unique_on Workspace.id (workspaces ?db')"
    unfolding delete_Workspaces_tables
    using assms by (intro unique_on_filter) (simp add: primary_keys_def)
  have ms: "unique_on WorkspaceMember.id (workspaceMembers ?db')"
    unfolding delete_Workspaces_tables
    using assms by (intro unique_on_filter) (simp add: primary_keys_def)
  show ?thesis
    unfolding primary_keys_def
    using ws ms below [unfolded primary_keys_def]
    by (simp only: delete_Workspaces_below simp_thms)
qed

lemma delete_Workspaces_unique_constraints:
  assumes "unique_constraints db"
  shows "unique_constraints (delete_Workspaces c db)"
proof -
  let ?db' = "delete_Workspaces c db"
  have below: "unique_constraints (delete_Projects
          (\<lambda>p. Project.workspaceId p \<in> set (map Workspace.id (filter c (workspaces db)))) db)"
    using assms by (rule delete_Projects_unique_constraints)
  have ws: "unique_on Workspace.name (workspaces ?db')"
    unfolding delete_Workspaces_tables
    using assms by (intro unique_on_filter) (simp add: unique_constraints_def)
  have ms: "unique_on (\<lambda>m. (WorkspaceMember.workspaceId m, WorkspaceMember.userId m)) (workspaceMembers ?db')"
    unfolding delete_Workspaces_tables
    using assms by (intro unique_on_filter) (simp add: unique_constraints_def)
  show ?thesis
    unfolding unique_constraints_def
    using ws ms below [unfolded unique_constraints_def]
    by (simp only: delete_Workspaces_below simp_thms)
qed

lemma delete_Workspaces_schema_valid:
  "schema_valid db \<Longrightarrow> schema_valid (delete_Workspaces c db)"
  by (simp add: schema_valid_def delete_Workspaces_foreign_keys delete_Workspaces_primary_keys
      delete_Workspaces_unique_constraints)

section \<open>The schema: the sample database is a valid state\<close>

lemmas example_rows = example_users_def example_workspaces_def example_members_def
  example_projects_def example_task_def example_tags_def example_sprints_def
  example_milestone_def example_dependencies_def example_activities_def

lemma example_db_primary_keys: "primary_keys example_db"
  by (simp add: primary_keys_def unique_on_def example_db_def example_rows)

lemma example_db_unique_constraints: "unique_constraints example_db"
  by (simp add: unique_constraints_def unique_on_def unique_on_nullable_def List.map_filter_def
      example_db_def example_rows)

lemma example_db_foreign_keys: "foreign_keys example_db"
  by (simp add: foreign_keys_def refers_def refers_nullable_def example_db_def example_rows)

lemma example_db_valid: "schema_valid example_db"
  by (simp add: schema_valid_def example_db_primary_keys example_db_unique_constraints
      example_db_foreign_keys)

lemma unique_on_nth:
  assumes "unique_on k rows" and "i < length rows" and "j < length rows" and "i \<noteq> j"
  shows "k (rows ! i) \<noteq> k (rows ! j)"
proof -
  have "distinct (map k rows)"
    using assms(1) by (simp add: unique_on_def)
  then have "\<forall>a < length rows. \<forall>b < length rows. a \<noteq> b \<longrightarrow> map k rows ! a \<noteq> map k rows ! b"
    by (simp add: distinct_conv_nth)
  with assms(2-4) have "map k rows ! i \<noteq> map k rows ! j"
    by blast
  then show ?thesis
    using assms(2,3) by simp
qed

section \<open>The schema: what the constraints guarantee and what they leave open\<close>

text \<open>
  C5. In a state the schema admits, no two rows of WorkspaceMember agree on both
  workspaceId and userId, no two rows of TaskTag agree on both taskId and name, and
  no two rows of MilestoneDependency agree on both milestoneId and dependsOnId.
\<close>

theorem declared_pairs_are_unique:
  assumes "schema_valid db"
  shows "(\<forall>i j. i < length (workspaceMembers db) \<and> j < length (workspaceMembers db) \<and> i \<noteq> j \<longrightarrow>
            \<not> (WorkspaceMember.workspaceId (workspaceMembers db ! i)
                  = WorkspaceMember.workspaceId (workspaceMembers db ! j)
               \<and> WorkspaceMember.userId (workspaceMembers db ! i)
                  = WorkspaceMember.userId (workspaceMembers db ! j)))
       \<and> (\<forall>i j. i < length (taskTags db) \<and> j < length (taskTags db) \<and> i \<noteq> j \<longrightarrow>
            \<not> (TaskTag.taskId (taskTags db ! i) = TaskTag.taskId (taskTags db ! j)
               \<and> TaskTag.name (taskTags db ! i) = TaskTag.name (taskTags db ! j)))
       \<and> (\<forall>i j. i < length (milestoneDependencies db) \<and> j < length (milestoneDependencies db)
               \<and> i \<noteq> j \<longrightarrow>
            \<not> (milestoneId (milestoneDependencies db ! i) = milestoneId (milestoneDependencies db ! j)
               \<and> dependsOnId (milestoneDependencies db ! i)
                  = dependsOnId (milestoneDependencies db ! j)))"
proof -
  from assms have u: "unique_constraints db"
    by (simp add: schema_valid_def)
  have members:
    "unique_on (\<lambda>m. (WorkspaceMember.workspaceId m, WorkspaceMember.userId m)) (workspaceMembers db)"
    using u by (simp add: unique_constraints_def)
  have tags: "unique_on (\<lambda>t. (TaskTag.taskId t, TaskTag.name t)) (taskTags db)"
    using u by (simp add: unique_constraints_def)
  have deps: "unique_on (\<lambda>d. (milestoneId d, dependsOnId d)) (milestoneDependencies db)"
    using u by (simp add: unique_constraints_def)
  show ?thesis
    using unique_on_nth [OF members] unique_on_nth [OF tags] unique_on_nth [OF deps]
    by (simp only: prod.inject) blast
qed

theorem declared_pairs_are_unique_witness:
  "schema_valid example_db
   \<and> \<not> (WorkspaceMember.workspaceId (workspaceMembers example_db ! 0)
           = WorkspaceMember.workspaceId (workspaceMembers example_db ! 1)
        \<and> WorkspaceMember.userId (workspaceMembers example_db ! 0)
           = WorkspaceMember.userId (workspaceMembers example_db ! 1))
   \<and> \<not> (TaskTag.taskId (taskTags example_db ! 0) = TaskTag.taskId (taskTags example_db ! 1)
        \<and> TaskTag.name (taskTags example_db ! 0) = TaskTag.name (taskTags example_db ! 1))
   \<and> \<not> (milestoneId (milestoneDependencies example_db ! 0)
           = milestoneId (milestoneDependencies example_db ! 2)
        \<and> dependsOnId (milestoneDependencies example_db ! 0)
           = dependsOnId (milestoneDependencies example_db ! 2))"
proof -
  have sizes: "length (workspaceMembers example_db) = 3" "length (taskTags example_db) = 3"
    "length (milestoneDependencies example_db) = 3"
    by (simp_all add: example_db_def example_rows)
  note pairs = declared_pairs_are_unique [OF example_db_valid]
  from pairs have "\<not> (WorkspaceMember.workspaceId (workspaceMembers example_db ! 0)
           = WorkspaceMember.workspaceId (workspaceMembers example_db ! 1)
        \<and> WorkspaceMember.userId (workspaceMembers example_db ! 0)
           = WorkspaceMember.userId (workspaceMembers example_db ! 1))"
    using sizes(1) by (elim conjE allE [of _ 0] allE [of _ 1]) simp
  moreover from pairs have "\<not> (TaskTag.taskId (taskTags example_db ! 0) = TaskTag.taskId (taskTags example_db ! 1)
        \<and> TaskTag.name (taskTags example_db ! 0) = TaskTag.name (taskTags example_db ! 1))"
    using sizes(2) by (elim conjE allE [of _ 0] allE [of _ 1]) simp
  moreover from pairs have "\<not> (milestoneId (milestoneDependencies example_db ! 0)
           = milestoneId (milestoneDependencies example_db ! 2)
        \<and> dependsOnId (milestoneDependencies example_db ! 0)
           = dependsOnId (milestoneDependencies example_db ! 2))"
    using sizes(3) by (elim conjE allE [of _ 0] allE [of _ 2]) simp
  ultimately show ?thesis
    using example_db_valid by simp
qed

text \<open>
  C7. The schema admits a state whose milestone dependencies contain a directed
  cycle, and it admits a state in which the progress of a project is outside the
  range from 0 to 100.
\<close>

theorem schema_admits_cycles_and_unbounded_progress:
  "(\<exists>db ms. schema_valid db \<and> is_cycle db ms)
   \<and> (\<exists>db. schema_valid db
         \<and> (\<exists>p \<in> set (database.projects db). sint (Project.progress p) < 0 \<or> 100 < sint (Project.progress p)))"
proof -
  have cycle: "is_cycle example_db [''m1'', ''m2'', ''m1'']"
    by (simp add: is_cycle_def dependency_edges_def example_db_def example_rows)
  have "\<exists>p \<in> set (database.projects example_db). 100 < sint (Project.progress p)"
    by (simp add: example_db_def example_rows)
  with cycle example_db_valid show ?thesis
    by blast
qed

section \<open>The schema: cascading deletes\<close>

lemma refers_member:
  "refers f rows k ts \<Longrightarrow> r \<in> set rows \<Longrightarrow> \<exists>t \<in> set ts. k t = f r"
  by (force simp add: refers_def list_all_iff)

text \<open>Where every target with key \<open>v\<close> has been deleted, no row points at \<open>v\<close>.\<close>

lemma refers_after_delete:
  assumes "refers f rows k (filter (\<lambda>t. \<not> c t) ts)" and "r \<in> set rows"
    and "\<And>t. k t = v \<Longrightarrow> c t"
  shows "f r \<noteq> v"
proof
  assume "f r = v"
  from refers_member [OF assms(1,2)] obtain t where "t \<in> set (filter (\<lambda>t. \<not> c t) ts)"
    and "k t = f r"
    by blast
  then have "\<not> c t" and "k t = v"
    using \<open>f r = v\<close> by simp_all
  with assms(3) show False
    by blast
qed

text \<open>A row that survives a cascade does not point at a deleted target.\<close>

lemma survivor_points_elsewhere:
  assumes "r \<in> set (filter (\<lambda>r. f r \<notin> set (map k (filter c ts))) rows)"
    and "q \<in> set ts" and "c q"
  shows "f r \<noteq> k q"
proof
  assume "f r = k q"
  from assms(2,3) have "k q \<in> set (map k (filter c ts))"
    by simp
  moreover from assms(1) have "f r \<notin> set (map k (filter c ts))"
    by simp
  ultimately show False
    using \<open>f r = k q\<close> by simp
qed

lemma member_of_map: "x \<in> set (map g xs) \<Longrightarrow> \<exists>y \<in> set xs. x = g y"
  by auto

lemma surviving_task_points_elsewhere:
  assumes "t \<in> set (tasks (delete_Projects c db))"
    and "q \<in> set (database.projects db)" and "c q"
  shows "Task.projectId t \<noteq> Project.id q"
proof -
  from assms(1) have "\<exists>t0 \<in> set (filter (\<lambda>t. Task.projectId t
                                  \<notin> set (map Project.id (filter c (database.projects db))))
                         (tasks db)). \<exists>D. t = set_null_sprintId D t0"
    unfolding delete_Projects_tables by (rule member_of_map [THEN bexE]) blast
  then obtain t0 D where t: "t = set_null_sprintId D t0"
    and t0: "t0 \<in> set (filter (\<lambda>t. Task.projectId t \<notin> set (map Project.id (filter c (database.projects db))))
                         (tasks db))"
    by blast
  from survivor_points_elsewhere [OF t0 assms(2,3)] t show ?thesis
    by simp
qed

lemma surviving_sprint_points_elsewhere:
  assumes "s \<in> set (sprints (delete_Projects c db))"
    and "q \<in> set (database.projects db)" and "c q"
  shows "Sprint.projectId s \<noteq> Project.id q"
  using assms(1) [unfolded delete_Projects_tables] assms(2,3) by (rule survivor_points_elsewhere)

lemma surviving_milestone_points_elsewhere:
  assumes "m \<in> set (milestones (delete_Projects c db))"
    and "q \<in> set (database.projects db)" and "c q"
  shows "Milestone.projectId m \<noteq> Project.id q"
  using assms(1) [unfolded delete_Projects_tables] assms(2,3) by (rule survivor_points_elsewhere)

lemma project_of_deleted_workspace:
  assumes "foreign_keys db" and "q \<in> set (database.projects db)" and "Project.workspaceId q = w"
  shows "Project.workspaceId q \<in> set (map Workspace.id (filter (\<lambda>x. Workspace.id x = w) (workspaces db)))"
proof -
  have "refers Project.workspaceId (database.projects db) Workspace.id (workspaces db)"
    using assms(1) by (simp add: foreign_keys_def)
  from refers_member [OF this assms(2)] obtain x where "x \<in> set (workspaces db)"
    and "Workspace.id x = Project.workspaceId q"
    by blast
  with assms(3) have "x \<in> set (filter (\<lambda>x. Workspace.id x = w) (workspaces db))"
    and "Workspace.id x = Project.workspaceId q"
    by simp_all
  then show ?thesis
    by force
qed

text \<open>
  C6. In a state the schema admits, deleting a workspace leaves no project of that
  workspace, deleting a project leaves no task, sprint or milestone of that project,
  and deleting a workspace leaves no task, sprint or milestone of any of its projects;
  the state after either delete is again one the schema admits, so every remaining
  row still points at an existing row.
\<close>

theorem cascading_deletes:
  assumes "schema_valid db"
  shows "(\<forall>q \<in> set (database.projects (delete_Workspace w db)). Project.workspaceId q \<noteq> w)
       \<and> (\<forall>t \<in> set (tasks (delete_Project p db)). Task.projectId t \<noteq> p)
       \<and> (\<forall>s \<in> set (sprints (delete_Project p db)). Sprint.projectId s \<noteq> p)
       \<and> (\<forall>m \<in> set (milestones (delete_Project p db)). Milestone.projectId m \<noteq> p)
       \<and> (\<forall>q \<in> set (database.projects db). Project.workspaceId q = w \<longrightarrow>
            (\<forall>t \<in> set (tasks (delete_Workspace w db)). Task.projectId t \<noteq> Project.id q)
          \<and> (\<forall>s \<in> set (sprints (delete_Workspace w db)). Sprint.projectId s \<noteq> Project.id q)
          \<and> (\<forall>m \<in> set (milestones (delete_Workspace w db)). Milestone.projectId m \<noteq> Project.id q))
       \<and> schema_valid (delete_Workspace w db)
       \<and> schema_valid (delete_Project p db)"
proof -
  let ?dw = "delete_Workspaces (\<lambda>x. Workspace.id x = w) db"
  let ?dp = "delete_Projects (\<lambda>q. Project.id q = p) db"
  let ?in_w = "\<lambda>q. Project.workspaceId q
                  \<in> set (map Workspace.id (filter (\<lambda>x. Workspace.id x = w) (workspaces db)))"
  from assms have fk: "foreign_keys db"
    by (simp add: schema_valid_def)
  have valid_w: "schema_valid ?dw"
    using assms by (rule delete_Workspaces_schema_valid)
  have valid_p: "schema_valid ?dp"
    using assms by (rule delete_Projects_schema_valid)
  from valid_w have fk_w: "foreign_keys ?dw"
    by (simp add: schema_valid_def)
  from valid_p have fk_p: "foreign_keys ?dp"
    by (simp add: schema_valid_def)
  have "refers Project.workspaceId (database.projects ?dw) Workspace.id (workspaces ?dw)"
    using fk_w by (simp add: foreign_keys_def)
  then have to_w: "refers Project.workspaceId (database.projects ?dw) Workspace.id
                     (filter (\<lambda>x. \<not> Workspace.id x = w) (workspaces db))"
    by (simp only: delete_Workspaces_tables(1))
  have projects_gone: "\<forall>q \<in> set (database.projects ?dw). Project.workspaceId q \<noteq> w"
  proof
    fix q assume "q \<in> set (database.projects ?dw)"
    with to_w show "Project.workspaceId q \<noteq> w"
      by (rule refers_after_delete)
  qed
  have "refers Task.projectId (tasks ?dp) Project.id (database.projects ?dp)"
    and "refers Sprint.projectId (sprints ?dp) Project.id (database.projects ?dp)"
    and "refers Milestone.projectId (milestones ?dp) Project.id (database.projects ?dp)"
    using fk_p by (simp_all add: foreign_keys_def)
  then have to_p: "refers Task.projectId (tasks ?dp) Project.id
                     (filter (\<lambda>q. \<not> Project.id q = p) (database.projects db))"
       "refers Sprint.projectId (sprints ?dp) Project.id
                     (filter (\<lambda>q. \<not> Project.id q = p) (database.projects db))"
       "refers Milestone.projectId (milestones ?dp) Project.id
                     (filter (\<lambda>q. \<not> Project.id q = p) (database.projects db))"
    by (simp_all only: delete_Projects_tables(6))
  have tasks_gone: "\<forall>t \<in> set (tasks ?dp). Task.projectId t \<noteq> p"
  proof
    fix t assume "t \<in> set (tasks ?dp)"
    with to_p(1) show "Task.projectId t \<noteq> p"
      by (rule refers_after_delete)
  qed
  have sprints_gone: "\<forall>s \<in> set (sprints ?dp). Sprint.projectId s \<noteq> p"
  proof
    fix s assume "s \<in> set (sprints ?dp)"
    with to_p(2) show "Sprint.projectId s \<noteq> p"
      by (rule refers_after_delete)
  qed
  have milestones_gone: "\<forall>m \<in> set (milestones ?dp). Milestone.projectId m \<noteq> p"
  proof
    fix m assume "m \<in> set (milestones ?dp)"
    with to_p(3) show "Milestone.projectId m \<noteq> p"
      by (rule refers_after_delete)
  qed
  have below: "\<forall>q \<in> set (database.projects db). Project.workspaceId q = w \<longrightarrow>
            (\<forall>t \<in> set (tasks ?dw). Task.projectId t \<noteq> Project.id q)
          \<and> (\<forall>s \<in> set (sprints ?dw). Sprint.projectId s \<noteq> Project.id q)
          \<and> (\<forall>m \<in> set (milestones ?dw). Milestone.projectId m \<noteq> Project.id q)"
  proof (intro ballI impI conjI)
    fix q t
    assume q: "q \<in> set (database.projects db)" and "Project.workspaceId q = w"
      and "t \<in> set (tasks ?dw)"
    from fk q \<open>Project.workspaceId q = w\<close> have "?in_w q"
      by (rule project_of_deleted_workspace)
    with \<open>t \<in> set (tasks ?dw)\<close> [unfolded delete_Workspaces_below] q
    show "Task.projectId t \<noteq> Project.id q"
      by (rule surviving_task_points_elsewhere)
  next
    fix q s
    assume q: "q \<in> set (database.projects db)" and "Project.workspaceId q = w"
      and "s \<in> set (sprints ?dw)"
    from fk q \<open>Project.workspaceId q = w\<close> have "?in_w q"
      by (rule project_of_deleted_workspace)
    with \<open>s \<in> set (sprints ?dw)\<close> [unfolded delete_Workspaces_below] q
    show "Sprint.projectId s \<noteq> Project.id q"
      by (rule surviving_sprint_points_elsewhere)
  next
    fix q m
    assume q: "q \<in> set (database.projects db)" and "Project.workspaceId q = w"
      and "m \<in> set (milestones ?dw)"
    from fk q \<open>Project.workspaceId q = w\<close> have "?in_w q"
      by (rule project_of_deleted_workspace)
    with \<open>m \<in> set (milestones ?dw)\<close> [unfolded delete_Workspaces_below] q
    show "Milestone.projectId m \<noteq> Project.id q"
      by (rule surviving_milestone_points_elsewhere)
  qed
  from projects_gone tasks_gone sprints_gone milestones_gone below valid_w valid_p
  show ?thesis
    unfolding delete_Workspace_def delete_Project_def by (intro conjI)
qed

theorem cascading_deletes_witness:
  "schema_valid example_db
   \<and> map Project.id (database.projects example_db) = [''p1'', ''p2'']
   \<and> map Project.id (database.projects (delete_Workspace ''w1'' example_db)) = [''p2'']
   \<and> map Task.id (tasks (delete_Workspace ''w1'' example_db)) = [''t2'']
   \<and> map Task.id (tasks (delete_Project ''p1'' example_db)) = [''t2'']
   \<and> sprints (delete_Project ''p1'' example_db) = []
   \<and> map Milestone.id (milestones (delete_Project ''p1'' example_db)) = [''m3'']
   \<and> schema_valid (delete_Workspace ''w1'' example_db)
   \<and> schema_valid (delete_Project ''p1'' example_db)"
proof -
  have rows: "map Project.id (database.projects example_db) = [''p1'', ''p2'']"
    "map Project.id (database.projects (delete_Workspace ''w1'' example_db)) = [''p2'']"
    "map Task.id (tasks (delete_Workspace ''w1'' example_db)) = [''t2'']"
    "map Task.id (tasks (delete_Project ''p1'' example_db)) = [''t2'']"
    "sprints (delete_Project ''p1'' example_db) = []"
    "map Milestone.id (milestones (delete_Project ''p1'' example_db)) = [''m3'']"
    by (simp_all add: delete_Workspace_def delete_Workspaces_def delete_Project_def
        delete_Projects_def delete_Milestones_def delete_Sprints_def delete_Tasks_def Let_def
        example_db_def example_rows set_null_sprintId_def del: set_map set_filter)
  with cascading_deletes [OF example_db_valid, of "''w1''" "''p1''"] example_db_valid
  show ?thesis
    by (intro conjI) (elim conjE, assumption)+
qed

end
